theory Spec2Isabelle
  imports Main
begin

section \<open>JavaScript values, objects and thrown errors\<close>

text \<open>
  The request body carries optional strings. A property read \<^verbatim>\<open>obj[key]\<close> yields
  \<^verbatim>\<open>undefined\<close> for an absent key, so a value is a \<open>string option\<close> with \<open>None\<close> for
  \<^verbatim>\<open>undefined\<close>, and an object is a map from property names to strings.
\<close>

type_synonym js_value = "string option"

type_synonym js_object = "string \<rightharpoonup> string"

text \<open>
  \<^verbatim>\<open>!v\<close> in JavaScript: among optional strings, \<^verbatim>\<open>undefined\<close> and the empty string
  are the falsy values.
\<close>

definition falsy :: "js_value \<Rightarrow> bool" where
  "falsy v = (case v of None \<Rightarrow> True | Some s \<Rightarrow> s = [])"

text \<open>
  What a \<^verbatim>\<open>throw\<close> carries. \<open>TypeError\<close> is what the runtime raises on a property read
  of \<^verbatim>\<open>undefined\<close>; \<open>Error\<close> is what a collaborator raises (\<^verbatim>\<open>throw new Error()\<close> in the
  test stubs), with its message.
\<close>

datatype js_error = TypeError string | Error string

section \<open>Protocols, errors and HTTP helpers\<close>

text \<open>
  Modelled from the spec: the \<^verbatim>\<open>HttpRequest\<close> declaration of \<^verbatim>\<open>../protocols\<close> is not part
  of the sources. The spec gives the input as a record with a \<^verbatim>\<open>body\<close> field holding a
  mapping with the keys name, email, password, passwordConfirmation, each an optional
  string. The body itself may be absent (\<open>None\<close>).
\<close>

record HttpRequest =
  body :: "js_object option"

text \<open>
  Modelled from the spec: the error classes of \<^verbatim>\<open>../errors\<close> are not part of the
  sources. The spec lists the three kinds \<^verbatim>\<open>MissingParam(field)\<close>, \<^verbatim>\<open>InvalidParam(field)\<close>
  and \<^verbatim>\<open>ServerError\<close>, the last one without any payload; the tests compare bodies with
  \<^verbatim>\<open>new MissingParamError('name')\<close>, \<^verbatim>\<open>new InvalidParamError('email')\<close> and
  \<^verbatim>\<open>new ServerError()\<close>.
\<close>

datatype response_error =
    MissingParamError string
  | InvalidParamError string
  | ServerError

text \<open>
  Modelled from the spec: the \<^verbatim>\<open>HttpResponse\<close> declaration of \<^verbatim>\<open>../protocols\<close> is not part
  of the sources. The spec gives the output as \<^verbatim>\<open>{statusCode, body}\<close>, an integer and a
  value; the only bodies the controller builds are the three error kinds.
\<close>

record HttpResponse =
  statusCode :: int
  body :: response_error

text \<open>
  Modelled from the spec: \<^verbatim>\<open>badRequest\<close> of \<^verbatim>\<open>../helpers/http-helper\<close> is not part of the
  sources. The spec gives status 400 with the error as body for both client errors, and
  the tests expect \<^verbatim>\<open>statusCode\<close> 400 and the error as \<^verbatim>\<open>body\<close>.
\<close>

definition badRequest :: "response_error \<Rightarrow> HttpResponse" where
  "badRequest error = \<lparr>statusCode = 400, body = error\<rparr>"

text \<open>
  Modelled from the spec: \<^verbatim>\<open>serverError\<close> of \<^verbatim>\<open>../helpers/http-helper\<close> is not part of
  the sources. The controller calls it without arguments; the spec gives status 500
  with a \<^verbatim>\<open>ServerError\<close> body, and the tests expect \<^verbatim>\<open>statusCode\<close> 500 and a body equal to
  \<^verbatim>\<open>new ServerError()\<close>.
\<close>

definition serverError :: HttpResponse where
  "serverError = \<lparr>statusCode = 500, body = ServerError\<rparr>"

section \<open>Collaborators\<close>

text \<open>
  A collaborator method is code the controller does not own: it may read and change
  state of its own and it may throw. It is a function from its argument and the world
  \<open>'w\<close> before the call to its outcome (\<open>Inl\<close> a thrown error, \<open>Inr\<close> the value returned)
  and the world after the call.

  \<^verbatim>\<open>EmailValidator.isValid(email): boolean\<close> and
  \<^verbatim>\<open>AddAccount.add(account: AddAccountModel): AccountModel\<close>. Both models are plain
  objects; the argument the controller passes is whatever the body holds.
\<close>

type_synonym ('a, 'w) outcome = "(js_error + 'a) \<times> 'w"

type_synonym 'w EmailValidator = "js_value \<Rightarrow> 'w \<Rightarrow> (bool, 'w) outcome"

type_synonym 'w AddAccount = "js_object \<Rightarrow> 'w \<Rightarrow> (js_object, 'w) outcome"

text \<open>
  The controller instance: its two \<^verbatim>\<open>private readonly\<close> fields, set by the constructor.
\<close>

record 'w SignUpController =
  emailValidator :: "'w EmailValidator"
  addAccount :: "'w AddAccount"

section \<open>The controller\<close>

definition requiredFields :: "string list" where
  "requiredFields = [''email'', ''name'', ''password'', ''passwordConfirmation'']"

text \<open>
  The \<^verbatim>\<open>for (const field of requiredFields)\<close> loop. The result is \<open>Inl\<close> when the property
  read throws (the body is \<^verbatim>\<open>undefined\<close>), \<open>Inr (Some r)\<close> when the loop returns the
  response \<open>r\<close> from \<^verbatim>\<open>handle\<close>, and \<open>Inr None\<close> when the loop runs to its end.
\<close>

fun check_required :: "js_object option \<Rightarrow> string list \<Rightarrow> js_error + HttpResponse option" where
  "check_required b [] = Inr None"
| "check_required b (field # rest) =
     (case b of
        None \<Rightarrow> Inl (TypeError ''Cannot read properties of undefined'')
      | Some obj \<Rightarrow>
          if falsy (obj field) then Inr (Some (badRequest (MissingParamError field)))
          else check_required b rest)"

text \<open>
  The object literal \<^verbatim>\<open>{ email, name, password }\<close>: exactly these three properties.
\<close>

definition account_literal :: "js_value \<Rightarrow> js_value \<Rightarrow> js_value \<Rightarrow> js_object" where
  "account_literal email name password =
     (Map.empty(''email'' := email, ''name'' := name, ''password'' := password))"

text \<open>
  The statements of the \<^verbatim>\<open>try\<close> block after the loop, for a body that is an object:
  the destructuring, the comparison of the two passwords, the call of the validator and
  the call of \<^verbatim>\<open>add\<close>, whose result is dropped. \<open>Inr None\<close> is the end of the block,
  reached without a \<^verbatim>\<open>return\<close>.
\<close>

definition after_required ::
  "'w SignUpController \<Rightarrow> js_object \<Rightarrow> 'w \<Rightarrow> (HttpResponse option, 'w) outcome" where
  "after_required this obj w =
     (let name = obj ''name''; email = obj ''email''; password = obj ''password'';
          passwordConfirmation = obj ''passwordConfirmation''
      in if password \<noteq> passwordConfirmation
         then (Inr (Some (badRequest (InvalidParamError ''passwordConfirmation''))), w)
         else (case emailValidator this email w of
                 (Inl error, w1) \<Rightarrow> (Inl error, w1)
               | (Inr isValid, w1) \<Rightarrow>
                   if \<not> isValid
                   then (Inr (Some (badRequest (InvalidParamError ''email''))), w1)
                   else (case addAccount this (account_literal email name password) w1 of
                           (Inl error, w2) \<Rightarrow> (Inl error, w2)
                         | (Inr account, w2) \<Rightarrow> (Inr None, w2))))"

text \<open>The whole \<^verbatim>\<open>try\<close> block.\<close>

definition try_block ::
  "'w SignUpController \<Rightarrow> HttpRequest \<Rightarrow> 'w \<Rightarrow> (HttpResponse option, 'w) outcome" where
  "try_block this httpRequest w =
     (case check_required (HttpRequest.body httpRequest) requiredFields of
        Inl error \<Rightarrow> (Inl error, w)
      | Inr (Some response) \<Rightarrow> (Inr (Some response), w)
      | Inr None \<Rightarrow>
          (case HttpRequest.body httpRequest of
             None \<Rightarrow> (Inl (TypeError ''Cannot destructure undefined''), w)
           | Some obj \<Rightarrow> after_required this obj w))"

text \<open>
  \<^verbatim>\<open>handle\<close>: the \<^verbatim>\<open>try\<close> block, with \<^verbatim>\<open>catch (error) { return serverError() }\<close> around
  it. The result is \<open>None\<close> when the function ends without a \<^verbatim>\<open>return\<close> (JavaScript's
  \<^verbatim>\<open>undefined\<close>), and \<open>Some r\<close> when it returns the response \<open>r\<close>.
\<close>

definition handle :: "'w SignUpController \<Rightarrow> HttpRequest \<Rightarrow> 'w \<Rightarrow> HttpResponse option \<times> 'w" where
  "handle this httpRequest w =
     (case try_block this httpRequest w of
        (Inl error, w') \<Rightarrow> (Some serverError, w')
      | (Inr result, w') \<Rightarrow> (result, w'))"

section \<open>Observing the collaborators\<close>

text \<open>
  The tests observe the calls with \<^verbatim>\<open>jest.spyOn\<close>: the spy records the argument of each
  call and then runs the method. Here the record of calls is a list beside the world,
  and a call is recorded whether the method returns or throws.
\<close>

datatype call = IsValidCall js_value | AddCall js_object

fun is_isValid_call :: "call \<Rightarrow> bool" where
  "is_isValid_call (IsValidCall email) = True"
| "is_isValid_call (AddCall account) = False"

fun is_add_call :: "call \<Rightarrow> bool" where
  "is_add_call (IsValidCall email) = False"
| "is_add_call (AddCall account) = True"

definition spy_isValid :: "'w EmailValidator \<Rightarrow> ('w \<times> call list) EmailValidator" where
  "spy_isValid isValid email =
     (\<lambda>(w, calls). case isValid email w of (r, w') \<Rightarrow> (r, (w', calls @ [IsValidCall email])))"

definition spy_add :: "'w AddAccount \<Rightarrow> ('w \<times> call list) AddAccount" where
  "spy_add add account =
     (\<lambda>(w, calls). case add account w of (r, w') \<Rightarrow> (r, (w', calls @ [AddCall account])))"

definition spied :: "'w SignUpController \<Rightarrow> ('w \<times> call list) SignUpController" where
  "spied this =
     \<lparr>emailValidator = spy_isValid (emailValidator this),
      addAccount = spy_add (addAccount this)\<rparr>"

text \<open>The calls a run of \<^verbatim>\<open>handle\<close> makes, in order, as the spies record them.\<close>

definition calls_made :: "'w SignUpController \<Rightarrow> HttpRequest \<Rightarrow> 'w \<Rightarrow> call list" where
  "calls_made this httpRequest w = snd (snd (handle (spied this) httpRequest (w, [])))"

text \<open>All four required fields are present and not falsy.\<close>

definition all_present :: "js_object \<Rightarrow> bool" where
  "all_present obj = list_all (\<lambda>field. \<not> falsy (obj field)) requiredFields"

text \<open>
  A collaborator method is a deterministic function when its outcome depends on its
  argument only, not on the world it is called in.
\<close>

definition deterministic :: "('a \<Rightarrow> 'w \<Rightarrow> ('b, 'w) outcome) \<Rightarrow> bool" where
  "deterministic m = (\<forall>x w w'. fst (m x w) = fst (m x w'))"

text \<open>
  The stubs of the test file: \<^verbatim>\<open>makeEmailValidator\<close> (always \<^verbatim>\<open>true\<close>),
  \<^verbatim>\<open>makeEmailValidatorWithError\<close> (always throws), \<^verbatim>\<open>makeAddAcount\<close> (always the same
  fake account) and \<^verbatim>\<open>makeSut\<close>. They keep no state: the world is \<open>unit\<close>.
\<close>

definition makeEmailValidator :: "unit EmailValidator" where
  "makeEmailValidator email w = (Inr True, w)"

definition makeEmailValidatorWithError :: "unit EmailValidator" where
  "makeEmailValidatorWithError email w = (Inl (Error []), w)"

definition makeAddAcount :: "unit AddAccount" where
  "makeAddAcount account w =
     (Inr [''id'' \<mapsto> ''valid_id'', ''name'' \<mapsto> ''valid_name'',
           ''email'' \<mapsto> ''valid_email'', ''password'' \<mapsto> ''valid_password''], w)"

definition makeSut :: "unit SignUpController" where
  "makeSut = \<lparr>emailValidator = makeEmailValidator, addAccount = makeAddAcount\<rparr>"

text \<open>
  Two collaborators with a world of their own, a counter of the calls made.
  \<open>counting_sut\<close> counts its calls, and each answer depends on the argument only.
  \<open>once_sut\<close> has a validator whose answer depends on the counter: \<^verbatim>\<open>false\<close> on
  its first call and \<^verbatim>\<open>true\<close> afterwards, as a mock set up with
  \<^verbatim>\<open>mockReturnValueOnce(false)\<close> does.
\<close>

definition counting_sut :: "nat SignUpController" where
  "counting_sut =
     \<lparr>emailValidator = (\<lambda>email n. (Inr (email \<noteq> Some ''invalid_email@mail.com''), Suc n)),
      addAccount = (\<lambda>account n. (Inr (account(''id'' \<mapsto> ''valid_id'')), Suc n))\<rparr>"

definition once_sut :: "nat SignUpController" where
  "once_sut =
     \<lparr>emailValidator = (\<lambda>email n. (Inr (n \<noteq> 0), Suc n)),
      addAccount = (\<lambda>account n. (Inr (account(''id'' \<mapsto> ''valid_id'')), n))\<rparr>"

text \<open>The body the tests send when nothing is wrong with the request.\<close>

definition valid_body :: js_object where
  "valid_body =
     [''email'' \<mapsto> ''any_email@mail.com'', ''name'' \<mapsto> ''any_name'',
      ''password'' \<mapsto> ''any_password'', ''passwordConfirmation'' \<mapsto> ''any_password'']"

section \<open>How the controller runs\<close>

lemma check_required_all_present:
  "list_all (\<lambda>field. \<not> falsy (obj field)) fs \<Longrightarrow> check_required (Some obj) fs = Inr None"
  by (induction fs) simp_all

lemma try_block_all_present:
  "all_present obj \<Longrightarrow>
   try_block this \<lparr>HttpRequest.body = Some obj\<rparr> w = after_required this obj w"
  by (simp add: try_block_def all_present_def check_required_all_present)

lemma check_required_first_falsy:
  "i < length fs \<Longrightarrow> falsy (obj (fs ! i)) \<Longrightarrow> \<forall>j<i. \<not> falsy (obj (fs ! j)) \<Longrightarrow>
   check_required (Some obj) fs = Inr (Some (badRequest (MissingParamError (fs ! i))))"
proof (induction fs arbitrary: i)
  case Nil
  then show ?case by simp
next
  case (Cons f fs)
  show ?case
  proof (cases i)
    case 0
    with Cons.prems show ?thesis by simp
  next
    case (Suc k)
    from Cons.prems Suc have nf: "\<not> falsy (obj f)" by auto
    from Cons.prems Suc have "\<forall>j<k. \<not> falsy (obj (fs ! j))" by auto
    with Cons.prems Suc have "check_required (Some obj) fs =
        Inr (Some (badRequest (MissingParamError (fs ! k))))"
      by (intro Cons.IH) auto
    with nf Suc show ?thesis by simp
  qed
qed

lemma after_required_mismatch:
  "obj ''password'' \<noteq> obj ''passwordConfirmation'' \<Longrightarrow>
   after_required this obj w =
     (Inr (Some (badRequest (InvalidParamError ''passwordConfirmation''))), w)"
  by (simp add: after_required_def Let_def)

lemma after_required_spied_throws:
  "obj ''password'' = obj ''passwordConfirmation'' \<Longrightarrow>
   emailValidator this (obj ''email'') w = (Inl e, w1) \<Longrightarrow>
   after_required (spied this) obj (w, calls) =
     (Inl e, (w1, calls @ [IsValidCall (obj ''email'')]))"
  by (simp add: after_required_def Let_def spied_def spy_isValid_def)

lemma after_required_spied_invalid:
  "obj ''password'' = obj ''passwordConfirmation'' \<Longrightarrow>
   emailValidator this (obj ''email'') w = (Inr False, w1) \<Longrightarrow>
   after_required (spied this) obj (w, calls) =
     (Inr (Some (badRequest (InvalidParamError ''email''))),
      (w1, calls @ [IsValidCall (obj ''email'')]))"
  by (simp add: after_required_def Let_def spied_def spy_isValid_def)

lemma after_required_spied_add:
  "obj ''password'' = obj ''passwordConfirmation'' \<Longrightarrow>
   emailValidator this (obj ''email'') w = (Inr True, w1) \<Longrightarrow>
   addAccount this (account_literal (obj ''email'') (obj ''name'') (obj ''password'')) w1
     = (r, w2) \<Longrightarrow>
   after_required (spied this) obj (w, calls) =
     ((case r of Inl e \<Rightarrow> Inl e | Inr account \<Rightarrow> Inr None),
      (w2, calls @ [IsValidCall (obj ''email''),
                    AddCall (account_literal (obj ''email'') (obj ''name'') (obj ''password''))]))"
  by (simp add: after_required_def Let_def spied_def spy_isValid_def spy_add_def split: sum.splits)

lemma after_required_add_throws:
  "obj ''password'' = obj ''passwordConfirmation'' \<Longrightarrow>
   emailValidator this (obj ''email'') w = (Inr True, w1) \<Longrightarrow>
   addAccount this (account_literal (obj ''email'') (obj ''name'') (obj ''password'')) w1
     = (Inl e, w2) \<Longrightarrow>
   after_required this obj w = (Inl e, w2)"
  by (simp add: after_required_def Let_def)

lemma after_required_add_returns:
  "obj ''password'' = obj ''passwordConfirmation'' \<Longrightarrow>
   emailValidator this (obj ''email'') w = (Inr True, w1) \<Longrightarrow>
   addAccount this (account_literal (obj ''email'') (obj ''name'') (obj ''password'')) w1
     = (Inr account, w2) \<Longrightarrow>
   after_required this obj w = (Inr None, w2)"
  by (simp add: after_required_def Let_def)

text \<open>The calls one run of the block after the loop can make.\<close>

lemma after_required_spied_calls:
  "snd (snd (after_required (spied this) obj (w, []))) \<in>
     {[], [IsValidCall (obj ''email'')],
      [IsValidCall (obj ''email''),
       AddCall (account_literal (obj ''email'') (obj ''name'') (obj ''password''))]}"
  by (simp add: after_required_def Let_def spied_def spy_isValid_def spy_add_def
           split: prod.splits sum.splits)

lemma handle_spied_calls:
  "snd (snd (handle (spied this) httpRequest (w, []))) \<in>
     {[], [IsValidCall (the (HttpRequest.body httpRequest) ''email'')],
      [IsValidCall (the (HttpRequest.body httpRequest) ''email''),
       AddCall (account_literal (the (HttpRequest.body httpRequest) ''email'')
          (the (HttpRequest.body httpRequest) ''name'') (the (HttpRequest.body httpRequest) ''password''))]}"
proof (cases "HttpRequest.body httpRequest")
  case None
  then show ?thesis
    by (simp add: handle_def try_block_def requiredFields_def)
next
  case (Some obj)
  show ?thesis
  proof (cases "check_required (Some obj) requiredFields")
    case (Inl e)
    with Some show ?thesis by (simp add: handle_def try_block_def)
  next
    case (Inr r)
    show ?thesis
    proof (cases r)
      case None
      with Inr Some after_required_spied_calls [of this obj w] show ?thesis
        by (auto simp add: handle_def try_block_def split: prod.splits sum.splits)
    next
      case (Some resp)
      with Inr \<open>HttpRequest.body httpRequest = Some obj\<close> show ?thesis
        by (simp add: handle_def try_block_def)
    qed
  qed
qed

lemma account_literal_props:
  "account_literal email name password ''email'' = email"
  "account_literal email name password ''name'' = name"
  "account_literal email name password ''password'' = password"
  "account_literal email name password ''passwordConfirmation'' = None"
  by (simp_all add: account_literal_def)

lemma account_literal_dom:
  "dom (account_literal (Some e) (Some n) (Some p)) = {''email'', ''name'', ''password''}"
  by (auto simp add: account_literal_def split: if_splits)

lemma all_present_Some:
  "all_present obj \<Longrightarrow>
   \<exists>e n p c. obj ''email'' = Some e \<and> obj ''name'' = Some n \<and> obj ''password'' = Some p
     \<and> obj ''passwordConfirmation'' = Some c"
  by (auto simp add: all_present_def requiredFields_def falsy_def split: option.splits)

lemma calls_made_cases:
  "calls_made this httpRequest w = [] \<or>
   (\<exists>email. calls_made this httpRequest w = [IsValidCall email]) \<or>
   (\<exists>email account. calls_made this httpRequest w = [IsValidCall email, AddCall account])"
  using handle_spied_calls [of this httpRequest w] by (auto simp add: calls_made_def)

lemma calls_made_success:
  assumes "all_present obj"
    and "obj ''password'' = obj ''passwordConfirmation''"
    and "emailValidator this (obj ''email'') w = (Inr True, w')"
  shows "calls_made this \<lparr>HttpRequest.body = Some obj\<rparr> w =
           [IsValidCall (obj ''email''),
            AddCall (account_literal (obj ''email'') (obj ''name'') (obj ''password''))]"
proof -
  obtain r w'' where
    "addAccount this (account_literal (obj ''email'') (obj ''name'') (obj ''password'')) w'
       = (r, w'')"
    by (cases "addAccount this (account_literal (obj ''email'') (obj ''name'') (obj ''password'')) w'")
  from after_required_spied_add [OF assms(2) assms(3) this, of "[]"] assms(1)
  show ?thesis
    by (simp add: calls_made_def handle_def try_block_all_present split: sum.splits)
qed

lemma after_required_response:
  "fst (after_required this obj w) =
     (if obj ''password'' \<noteq> obj ''passwordConfirmation''
      then Inr (Some (badRequest (InvalidParamError ''passwordConfirmation'')))
      else case fst (emailValidator this (obj ''email'') w) of
             Inl e \<Rightarrow> Inl e
           | Inr isValid \<Rightarrow>
               if \<not> isValid then Inr (Some (badRequest (InvalidParamError ''email'')))
               else case fst (addAccount this
                       (account_literal (obj ''email'') (obj ''name'') (obj ''password''))
                       (snd (emailValidator this (obj ''email'') w))) of
                      Inl e \<Rightarrow> Inl e
                    | Inr account \<Rightarrow> Inr None)"
  by (auto simp add: after_required_def Let_def split: prod.splits sum.splits)

lemma after_required_deterministic:
  assumes "deterministic (emailValidator this)" and "deterministic (addAccount this)"
  shows "fst (after_required this obj w) = fst (after_required this obj w')"
proof -
  from assms(1) have ev: "fst (emailValidator this (obj ''email'') w) =
      fst (emailValidator this (obj ''email'') w')"
    by (simp add: deterministic_def)
  from assms(2) have aa: "fst (addAccount this
        (account_literal (obj ''email'') (obj ''name'') (obj ''password''))
        (snd (emailValidator this (obj ''email'') w))) =
      fst (addAccount this
        (account_literal (obj ''email'') (obj ''name'') (obj ''password''))
        (snd (emailValidator this (obj ''email'') w')))"
    by (simp add: deterministic_def)
  show ?thesis
    unfolding after_required_response ev aa by (rule refl)
qed

lemma handle_deterministic:
  assumes "deterministic (emailValidator this)" and "deterministic (addAccount this)"
  shows "fst (handle this httpRequest w) = fst (handle this httpRequest w')"
proof -
  have "fst (try_block this httpRequest w) = fst (try_block this httpRequest w')"
    using after_required_deterministic [OF assms]
    by (simp add: try_block_def split: sum.splits option.splits)
  moreover have "\<And>u. fst (handle this httpRequest u) =
      (case fst (try_block this httpRequest u) of Inl e \<Rightarrow> Some serverError | Inr r \<Rightarrow> r)"
    by (simp add: handle_def split: prod.splits sum.splits)
  ultimately show ?thesis by simp
qed

text \<open>
  The path on which every check passes and \<^verbatim>\<open>add\<close> returns: the block ends without a
  \<^verbatim>\<open>return\<close>, whatever the collaborators are.
\<close>

lemma handle_success_no_response:
  assumes "all_present obj"
    and "obj ''password'' = obj ''passwordConfirmation''"
    and "emailValidator this (obj ''email'') w = (Inr True, w')"
    and "addAccount this (account_literal (obj ''email'') (obj ''name'') (obj ''password'')) w'
           = (Inr account, w'')"
  shows "handle this \<lparr>HttpRequest.body = Some obj\<rparr> w = (None, w'')"
  using assms
  by (simp add: handle_def try_block_all_present after_required_add_returns)

text \<open>
  With a validator whose answer depends on its own state, two runs on the same request
  differ: the hypothesis of deterministic collaborators is needed for the two-run
  equality.
\<close>

lemma handle_two_runs_stateful_validator:
  "fst (handle once_sut \<lparr>HttpRequest.body = Some valid_body\<rparr> 0)
     = Some \<lparr>statusCode = 400, body = InvalidParamError ''email''\<rparr> \<and>
   fst (handle once_sut \<lparr>HttpRequest.body = Some valid_body\<rparr>
          (snd (handle once_sut \<lparr>HttpRequest.body = Some valid_body\<rparr> 0))) = None"
  by (simp add: handle_def try_block_def after_required_def Let_def requiredFields_def
        valid_body_def falsy_def once_sut_def badRequest_def)

section \<open>Properties\<close>

text \<open>
  C1: \<^verbatim>\<open>handle\<close> is declared to return an \<^verbatim>\<open>HttpResponse\<close> for every request. On the
  request of the tests in which every field is valid, with the stubs of \<^verbatim>\<open>makeSut\<close> (the
  validator answers \<^verbatim>\<open>true\<close>, \<^verbatim>\<open>add\<close> returns the fake account), the \<^verbatim>\<open>try\<close> block ends
  after the call of \<^verbatim>\<open>add\<close> without a \<^verbatim>\<open>return\<close>: the result is \<^verbatim>\<open>undefined\<close>, not a
  status and a body.
\<close>

theorem handle_success_returns_nothing:
  "handle makeSut \<lparr>HttpRequest.body = Some valid_body\<rparr> () = (None, ())"
  by (simp add: handle_def try_block_def after_required_def Let_def requiredFields_def
        valid_body_def falsy_def makeSut_def makeEmailValidator_def makeAddAcount_def)

text \<open>
  C2: for each of the four required fields, when that field is absent or falsy and the
  other three are present, \<^verbatim>\<open>handle\<close> returns status 400 with a \<^verbatim>\<open>MissingParam\<close> body
  naming exactly that field (and leaves the world as it was).
\<close>

theorem handle_missing_param:
  assumes "field \<in> set requiredFields"
    and "falsy (obj field)"
    and "\<forall>other \<in> set requiredFields. other \<noteq> field \<longrightarrow> \<not> falsy (obj other)"
  shows "handle this \<lparr>HttpRequest.body = Some obj\<rparr> w =
           (Some \<lparr>statusCode = 400, body = MissingParamError field\<rparr>, w)"
  using assms
  by (auto simp add: handle_def try_block_def requiredFields_def badRequest_def)

theorem handle_missing_param_witness:
  "handle makeSut \<lparr>HttpRequest.body = Some (valid_body(''name'' := None))\<rparr> () =
     (Some \<lparr>statusCode = 400, body = MissingParamError ''name''\<rparr>, ()) \<and>
   handle makeSut \<lparr>HttpRequest.body = Some (valid_body(''email'' := None))\<rparr> () =
     (Some \<lparr>statusCode = 400, body = MissingParamError ''email''\<rparr>, ()) \<and>
   handle makeSut \<lparr>HttpRequest.body = Some (valid_body(''password'' := None))\<rparr> () =
     (Some \<lparr>statusCode = 400, body = MissingParamError ''password''\<rparr>, ()) \<and>
   handle makeSut \<lparr>HttpRequest.body = Some (valid_body(''passwordConfirmation'' := Some []))\<rparr> () =
     (Some \<lparr>statusCode = 400, body = MissingParamError ''passwordConfirmation''\<rparr>, ())"
  using handle_missing_param [of "''name''" "valid_body(''name'' := None)" makeSut "()"]
    handle_missing_param [of "''email''" "valid_body(''email'' := None)" makeSut "()"]
    handle_missing_param [of "''password''" "valid_body(''password'' := None)" makeSut "()"]
    handle_missing_param [of "''passwordConfirmation''"
      "valid_body(''passwordConfirmation'' := Some [])" makeSut "()"]
  by (simp add: requiredFields_def valid_body_def falsy_def)

text \<open>
  C3: when all four required fields are present and \<^verbatim>\<open>password\<close> is not equal to
  \<^verbatim>\<open>passwordConfirmation\<close>, \<^verbatim>\<open>handle\<close> returns status 400 with an \<^verbatim>\<open>InvalidParam\<close> body
  naming \<^verbatim>\<open>passwordConfirmation\<close>, and the validator is not called: the record of calls
  is empty.
\<close>

theorem handle_password_mismatch:
  assumes "all_present obj"
    and "obj ''password'' \<noteq> obj ''passwordConfirmation''"
  shows "handle (spied this) \<lparr>HttpRequest.body = Some obj\<rparr> (w, []) =
           (Some \<lparr>statusCode = 400, body = InvalidParamError ''passwordConfirmation''\<rparr>,
            (w, []))"
  using assms
  by (simp add: handle_def try_block_all_present after_required_mismatch badRequest_def)

theorem handle_password_mismatch_witness:
  "handle (spied makeSut)
     \<lparr>HttpRequest.body = Some (valid_body(''password'' \<mapsto> ''a'', ''passwordConfirmation'' \<mapsto> ''b''))\<rparr>
     ((), []) =
   (Some \<lparr>statusCode = 400, body = InvalidParamError ''passwordConfirmation''\<rparr>, ((), []))"
  using handle_password_mismatch
    [of "valid_body(''password'' \<mapsto> ''a'', ''passwordConfirmation'' \<mapsto> ''b'')" makeSut "()"]
  by (simp add: all_present_def requiredFields_def valid_body_def falsy_def)

text \<open>
  C4: when all four required fields are present, the two passwords are equal and
  \<^verbatim>\<open>isValid\<close> returns \<^verbatim>\<open>false\<close>, \<^verbatim>\<open>handle\<close> returns status 400 with an \<^verbatim>\<open>InvalidParam\<close>
  body naming \<^verbatim>\<open>email\<close>, and the one call made is \<^verbatim>\<open>isValid\<close> with exactly the email of
  the request.
\<close>

theorem handle_invalid_email:
  assumes "all_present obj"
    and "obj ''password'' = obj ''passwordConfirmation''"
    and "emailValidator this (obj ''email'') w = (Inr False, w')"
  shows "handle (spied this) \<lparr>HttpRequest.body = Some obj\<rparr> (w, []) =
           (Some \<lparr>statusCode = 400, body = InvalidParamError ''email''\<rparr>,
            (w', [IsValidCall (obj ''email'')]))"
  using assms
  by (simp add: handle_def try_block_all_present after_required_spied_invalid badRequest_def)

theorem handle_invalid_email_witness:
  "handle (spied (makeSut\<lparr>emailValidator := (\<lambda>email w. (Inr False, w))\<rparr>))
     \<lparr>HttpRequest.body = Some (valid_body(''email'' \<mapsto> ''invalid_email@mail.com''))\<rparr> ((), []) =
   (Some \<lparr>statusCode = 400, body = InvalidParamError ''email''\<rparr>,
    ((), [IsValidCall (Some ''invalid_email@mail.com'')]))"
  using handle_invalid_email
    [of "valid_body(''email'' \<mapsto> ''invalid_email@mail.com'')"
        "makeSut\<lparr>emailValidator := (\<lambda>email w. (Inr False, w))\<rparr>" "()" "()"]
  by (simp add: all_present_def requiredFields_def valid_body_def falsy_def)

text \<open>
  C5: when the request reaches the validation of the email (all four fields present,
  the two passwords equal) and \<^verbatim>\<open>isValid\<close> throws, \<^verbatim>\<open>handle\<close> returns status 500 with a
  \<^verbatim>\<open>ServerError\<close> body, and \<^verbatim>\<open>add\<close> is not called.
\<close>

theorem handle_validator_throws:
  assumes "all_present obj"
    and "obj ''password'' = obj ''passwordConfirmation''"
    and "emailValidator this (obj ''email'') w = (Inl e, w')"
  shows "handle (spied this) \<lparr>HttpRequest.body = Some obj\<rparr> (w, []) =
           (Some \<lparr>statusCode = 500, body = ServerError\<rparr>, (w', [IsValidCall (obj ''email'')]))
         \<and> filter is_add_call (calls_made this \<lparr>HttpRequest.body = Some obj\<rparr> w) = []"
  using assms
  by (simp add: calls_made_def handle_def try_block_all_present after_required_spied_throws
        serverError_def)

theorem handle_validator_throws_witness:
  "handle (spied (makeSut\<lparr>emailValidator := makeEmailValidatorWithError\<rparr>))
     \<lparr>HttpRequest.body = Some valid_body\<rparr> ((), []) =
   (Some \<lparr>statusCode = 500, body = ServerError\<rparr>,
    ((), [IsValidCall (Some ''any_email@mail.com'')]))"
  using handle_validator_throws
    [where obj = valid_body and w = "()" and e = "Error []" and w' = "()"
       and this = "makeSut\<lparr>emailValidator := makeEmailValidatorWithError\<rparr>"]
  by (simp add: all_present_def requiredFields_def valid_body_def falsy_def
        makeEmailValidatorWithError_def)

text \<open>
  C6: when the request passes every check and \<^verbatim>\<open>add\<close> throws the error \<open>e\<close>,
  \<^verbatim>\<open>handle\<close> returns status 500 with the \<^verbatim>\<open>ServerError\<close> body, which has no payload: the
  response is the same whatever \<open>e\<close> is.
\<close>

theorem handle_add_throws:
  assumes "all_present obj"
    and "obj ''password'' = obj ''passwordConfirmation''"
    and "emailValidator this (obj ''email'') w = (Inr True, w')"
    and "addAccount this (account_literal (obj ''email'') (obj ''name'') (obj ''password'')) w'
           = (Inl e, w'')"
  shows "handle this \<lparr>HttpRequest.body = Some obj\<rparr> w =
           (Some \<lparr>statusCode = 500, body = ServerError\<rparr>, w'')"
  using assms
  by (simp add: handle_def try_block_all_present after_required_add_throws serverError_def)

theorem handle_add_throws_witness:
  "handle (makeSut\<lparr>addAccount := (\<lambda>account w. (Inl (Error ''database is down''), w))\<rparr>)
     \<lparr>HttpRequest.body = Some valid_body\<rparr> () =
   (Some \<lparr>statusCode = 500, body = ServerError\<rparr>, ())"
  using handle_add_throws
    [where obj = valid_body and w = "()" and w' = "()" and w'' = "()"
       and e = "Error ''database is down''"
       and this = "makeSut\<lparr>addAccount := (\<lambda>account w. (Inl (Error ''database is down''), w))\<rparr>"]
  by (simp add: all_present_def requiredFields_def valid_body_def falsy_def
        makeSut_def makeEmailValidator_def)

text \<open>
  C7: when all four required fields are present, the two passwords are equal and the
  validator returns \<^verbatim>\<open>true\<close>, \<^verbatim>\<open>add\<close> is called exactly once, with an object whose
  properties are exactly \<^verbatim>\<open>email\<close>, \<^verbatim>\<open>name\<close> and \<^verbatim>\<open>password\<close>, with the values of the
  request, and without \<^verbatim>\<open>passwordConfirmation\<close>. And in every call of \<^verbatim>\<open>handle\<close>,
  whatever the controller \<open>sut\<close>, the request and the world, each collaborator is called
  at most once.
\<close>

theorem add_called_once:
  "(all_present obj \<and> obj ''password'' = obj ''passwordConfirmation'' \<and>
    emailValidator this (obj ''email'') w = (Inr True, w') \<longrightarrow>
      (\<exists>account.
         filter is_add_call (calls_made this \<lparr>HttpRequest.body = Some obj\<rparr> w) = [AddCall account]
         \<and> account ''email'' = obj ''email'' \<and> account ''name'' = obj ''name''
         \<and> account ''password'' = obj ''password''
         \<and> account ''passwordConfirmation'' = None
         \<and> dom account = {''email'', ''name'', ''password''}))
   \<and> length (filter is_isValid_call (calls_made sut httpRequest w0)) \<le> 1
   \<and> length (filter is_add_call (calls_made sut httpRequest w0)) \<le> 1"
proof (intro conjI impI)
  assume h: "all_present obj \<and> obj ''password'' = obj ''passwordConfirmation'' \<and>
    emailValidator this (obj ''email'') w = (Inr True, w')"
  from h all_present_Some [of obj] obtain e n p where
    vals: "obj ''email'' = Some e" "obj ''name'' = Some n" "obj ''password'' = Some p"
    by auto
  let ?account = "account_literal (obj ''email'') (obj ''name'') (obj ''password'')"
  from h have "calls_made this \<lparr>HttpRequest.body = Some obj\<rparr> w =
      [IsValidCall (obj ''email''), AddCall ?account]"
    by (simp add: calls_made_success)
  then have "filter is_add_call (calls_made this \<lparr>HttpRequest.body = Some obj\<rparr> w) = [AddCall ?account]"
    by simp
  moreover have "dom ?account = {''email'', ''name'', ''password''}"
    using account_literal_dom [of e n p] vals by simp
  ultimately show "\<exists>account.
         filter is_add_call (calls_made this \<lparr>HttpRequest.body = Some obj\<rparr> w) = [AddCall account]
         \<and> account ''email'' = obj ''email'' \<and> account ''name'' = obj ''name''
         \<and> account ''password'' = obj ''password''
         \<and> account ''passwordConfirmation'' = None
         \<and> dom account = {''email'', ''name'', ''password''}"
    using account_literal_props [of "obj ''email''" "obj ''name''" "obj ''password''"]
    by blast
next
  show "length (filter is_isValid_call (calls_made sut httpRequest w0)) \<le> 1"
    using calls_made_cases [of sut httpRequest w0] by auto
next
  show "length (filter is_add_call (calls_made sut httpRequest w0)) \<le> 1"
    using calls_made_cases [of sut httpRequest w0] by auto
qed

theorem add_called_once_witness:
  "(\<exists>account.
      filter is_add_call (calls_made makeSut \<lparr>HttpRequest.body = Some valid_body\<rparr> ()) = [AddCall account]
      \<and> account ''email'' = Some ''any_email@mail.com'' \<and> account ''name'' = Some ''any_name''
      \<and> account ''password'' = Some ''any_password''
      \<and> account ''passwordConfirmation'' = None
      \<and> dom account = {''email'', ''name'', ''password''})
   \<and> length (filter is_isValid_call (calls_made makeSut \<lparr>HttpRequest.body = Some valid_body\<rparr> ())) \<le> 1"
  using add_called_once [where obj = valid_body and this = makeSut and w = "()" and w' = "()"
      and sut = makeSut and httpRequest = "\<lparr>HttpRequest.body = Some valid_body\<rparr>" and ?w0.0 = "()"]
  by (simp add: all_present_def requiredFields_def valid_body_def falsy_def
        makeSut_def makeEmailValidator_def)

text \<open>
  C8: the required fields are checked in the order \<^verbatim>\<open>email\<close>, \<^verbatim>\<open>name\<close>, \<^verbatim>\<open>password\<close>,
  \<^verbatim>\<open>passwordConfirmation\<close> and the first failing check wins: when the field at position
  \<open>i\<close> is absent or falsy and no field before it is, whatever the fields after it are,
  the 400 \<^verbatim>\<open>MissingParam\<close> body names the field at position \<open>i\<close>. So with two or more
  of the fields absent or falsy the body names the earliest of them.
\<close>

theorem handle_missing_param_first:
  assumes "i < length requiredFields"
    and "falsy (obj (requiredFields ! i))"
    and "\<forall>j<i. \<not> falsy (obj (requiredFields ! j))"
  shows "requiredFields = [''email'', ''name'', ''password'', ''passwordConfirmation'']
         \<and> handle this \<lparr>HttpRequest.body = Some obj\<rparr> w =
             (Some \<lparr>statusCode = 400, body = MissingParamError (requiredFields ! i)\<rparr>, w)"
  using check_required_first_falsy [OF assms]
  by (simp add: handle_def try_block_def badRequest_def) (simp add: requiredFields_def)

theorem handle_missing_param_first_witness:
  "handle makeSut \<lparr>HttpRequest.body = Some (valid_body(''name'' := None, ''email'' := None))\<rparr> () =
     (Some \<lparr>statusCode = 400, body = MissingParamError ''email''\<rparr>, ()) \<and>
   handle makeSut \<lparr>HttpRequest.body =
       Some (valid_body(''passwordConfirmation'' := None, ''name'' := Some [], ''password'' := None))\<rparr> () =
     (Some \<lparr>statusCode = 400, body = MissingParamError ''name''\<rparr>, ())"
proof -
  let ?one = "valid_body(''name'' := None, ''email'' := None)"
  let ?two = "valid_body(''passwordConfirmation'' := None, ''name'' := Some [], ''password'' := None)"
  have "0 < length requiredFields" and "falsy (?one (requiredFields ! 0))"
    by (simp_all add: requiredFields_def falsy_def)
  then have "\<forall>j<0. \<not> falsy (?one (requiredFields ! j))"
    by simp
  note h1 = \<open>0 < length requiredFields\<close> \<open>falsy (?one (requiredFields ! 0))\<close> this
  from handle_missing_param_first [where i = 0 and obj = ?one and this = makeSut and w = "()", OF h1]
  have first: "handle makeSut \<lparr>HttpRequest.body = Some ?one\<rparr> () =
      (Some \<lparr>statusCode = 400, body = MissingParamError ''email''\<rparr>, ())"
    by (simp add: requiredFields_def)
  have h2: "1 < length requiredFields" "falsy (?two (requiredFields ! 1))"
    "\<forall>j<1. \<not> falsy (?two (requiredFields ! j))"
    by (simp_all add: requiredFields_def valid_body_def falsy_def)
  from handle_missing_param_first [where i = 1 and obj = ?two and this = makeSut and w = "()", OF h2]
  have "handle makeSut \<lparr>HttpRequest.body = Some ?two\<rparr> () =
      (Some \<lparr>statusCode = 400, body = MissingParamError ''name''\<rparr>, ())"
    by (simp add: requiredFields_def)
  with first show ?thesis by simp
qed

text \<open>
  C9: \<^verbatim>\<open>handle\<close> is deterministic and keeps no state of its own. With collaborators that
  are deterministic functions, two calls of \<^verbatim>\<open>handle\<close> on the same request give the same
  response, from any two worlds \<open>w\<close> and \<open>w'\<close>, and so also when the second call runs in
  the world the first call has left.
\<close>

theorem handle_two_runs:
  assumes "deterministic (emailValidator this)" and "deterministic (addAccount this)"
  shows "fst (handle this httpRequest w') = fst (handle this httpRequest w)
         \<and> fst (handle this httpRequest (snd (handle this httpRequest w)))
             = fst (handle this httpRequest w)"
  using handle_deterministic [OF assms] by blast

theorem handle_two_runs_witness:
  "deterministic (emailValidator counting_sut) \<and> deterministic (addAccount counting_sut) \<and>
   fst (handle counting_sut \<lparr>HttpRequest.body = Some valid_body\<rparr> 7)
     = fst (handle counting_sut \<lparr>HttpRequest.body = Some valid_body\<rparr> 0) \<and>
   fst (handle counting_sut \<lparr>HttpRequest.body = Some valid_body\<rparr>
          (snd (handle counting_sut \<lparr>HttpRequest.body = Some valid_body\<rparr> 0)))
     = fst (handle counting_sut \<lparr>HttpRequest.body = Some valid_body\<rparr> 0)"
proof -
  have d1: "deterministic (emailValidator counting_sut)"
    by (simp add: deterministic_def counting_sut_def)
  have d2: "deterministic (addAccount counting_sut)"
    by (simp add: deterministic_def counting_sut_def)
  from handle_two_runs [OF d1 d2, of "\<lparr>HttpRequest.body = Some valid_body\<rparr>" 7 0] d1 d2
  show ?thesis by simp
qed

text \<open>
  C10: a request whose \<^verbatim>\<open>body\<close> is absent is answered with status 500 and a
  \<^verbatim>\<open>ServerError\<close> body, not with a 400 \<^verbatim>\<open>MissingParam\<close> response: the property read in
  the required-field loop throws, and the \<^verbatim>\<open>catch\<close> covers the loop. No collaborator
  is called: the record of calls stays empty and the world is unchanged.
\<close>

theorem handle_absent_body_500:
  "handle (spied this) \<lparr>HttpRequest.body = None\<rparr> (w, []) =
     (Some \<lparr>statusCode = 500, body = ServerError\<rparr>, (w, []))"
  by (simp add: handle_def try_block_def requiredFields_def serverError_def)

end
